theory Spec2Isabelle
  imports Main
begin

section \<open>JavaScript values and object literals\<close>

text \<open>
  The module \<^verbatim>\<open>playwright.config.ts\<close> builds one configuration object out of
  literals, object spreads and two reads of \<^verbatim>\<open>process.env\<close>. Its values are
  modelled by a small JSON-like datatype. An object is the list of its own properties
  in insertion order, which is the order JavaScript keeps for string keys.
\<close>

datatype jsval =
    JUndefined
  | JNull
  | JBool bool
  | JNum int
  | JStr string
  | JArr "jsval list"
  | JObj "(string \<times> jsval) list"

type_synonym obj = "(string \<times> jsval) list"

text \<open>
  Writing a property: an existing key keeps its position and takes the new value, a new
  key is appended.
\<close>

fun setProp :: "string \<Rightarrow> jsval \<Rightarrow> obj \<Rightarrow> obj" where
  "setProp k v [] = [(k, v)]"
| "setProp k v ((k', v') # ps) =
     (if k' = k then (k', v) # ps else (k', v') # setProp k v ps)"

text \<open>
  The spread \<^verbatim>\<open>...src\<close> inside an object literal copies the own properties of
  \<^verbatim>\<open>src\<close>, in order, onto the object built so far.
\<close>

fun spread :: "obj \<Rightarrow> obj \<Rightarrow> obj" where
  "spread acc [] = acc"
| "spread acc ((k, v) # ps) = spread (setProp k v acc) ps"

text \<open>
  An object literal is evaluated left to right: \<^verbatim>\<open>k: v\<close> writes a property,
  \<^verbatim>\<open>...o\<close> spreads an object. A later entry overrides an earlier one with the
  same key.
\<close>

datatype entry = Prop string jsval | Spread obj

fun objLitFrom :: "obj \<Rightarrow> entry list \<Rightarrow> obj" where
  "objLitFrom acc [] = acc"
| "objLitFrom acc (Prop k v # es) = objLitFrom (setProp k v acc) es"
| "objLitFrom acc (Spread s # es) = objLitFrom (spread acc s) es"

definition objLit :: "entry list \<Rightarrow> obj" where
  "objLit es = objLitFrom [] es"

text \<open>
  Reading a property: an absent key reads as \<^verbatim>\<open>undefined\<close>. \<open>hasProp\<close> tells
  an absent key from one that is present; \<open>dots\<close> follows a path of keys
  (\<^verbatim>\<open>a?.b?.c\<close>), \<open>elems\<close> gives the elements of an array.
\<close>

definition getProp :: "obj \<Rightarrow> string \<Rightarrow> jsval" where
  "getProp ob k = (case map_of ob k of None \<Rightarrow> JUndefined | Some v \<Rightarrow> v)"

definition hasProp :: "obj \<Rightarrow> string \<Rightarrow> bool" where
  "hasProp ob k = (map_of ob k \<noteq> None)"

fun dots :: "jsval \<Rightarrow> string list \<Rightarrow> jsval" where
  "dots v [] = v"
| "dots (JObj ps) (k # ks) = dots (getProp ps k) ks"
| "dots v (k # ks) = JUndefined"

fun elems :: "jsval \<Rightarrow> jsval list" where
  "elems (JArr xs) = xs"
| "elems v = []"

fun props :: "jsval \<Rightarrow> obj" where
  "props (JObj ps) = ps"
| "props v = []"


section \<open>The environment\<close>

text \<open>
  \<^verbatim>\<open>process.env\<close> maps variable names to strings; reading an unset variable
  gives \<^verbatim>\<open>undefined\<close>, modelled as \<open>None\<close>.
\<close>

type_synonym env = "string \<rightharpoonup> string"

text \<open>
  \<^verbatim>\<open>dotenv.config({ path: '.env' })\<close> (line 10) parses the file \<^verbatim>\<open>.env\<close> and
  stores each of its variables in \<^verbatim>\<open>process.env\<close> unless the variable is already
  set there (the library's default: no override). The parsed file is a parameter;
  \<open>None\<close> is a file that is missing, which leaves the environment as it is.
\<close>

definition dotenv_config :: "(string \<times> string) list option \<Rightarrow> env \<Rightarrow> env" where
  "dotenv_config parsed e =
     (case parsed of
        None \<Rightarrow> e
      | Some kvs \<Rightarrow> (\<lambda>k. case e k of Some v \<Rightarrow> Some v | None \<Rightarrow> map_of kvs k))"

text \<open>
  \<^verbatim>\<open>a || b\<close> on a value of type \<^verbatim>\<open>string | undefined\<close>: \<^verbatim>\<open>undefined\<close> and
  the empty string are falsy and give \<^verbatim>\<open>b\<close>.
\<close>

definition orElse :: "string option \<Rightarrow> string \<Rightarrow> string" where
  "orElse a b = (case a of None \<Rightarrow> b | Some s \<Rightarrow> if s = [] then b else s)"

text \<open>
  The substitution \<^verbatim>\<open>${x}\<close> of a template literal converts its value to a string:
  \<^verbatim>\<open>undefined\<close> becomes the nine characters \<^verbatim>\<open>undefined\<close>, a string is itself.
\<close>

definition toStringJS :: "string option \<Rightarrow> string" where
  "toStringJS a = (case a of None \<Rightarrow> ''undefined'' | Some s \<Rightarrow> s)"


section \<open>What the module imports\<close>

text \<open>
  The values the module takes from its imports and from the host are parameters:
  the two default objects of \<^verbatim>\<open>@anaconda/playwright-utils\<close>, the device
  descriptor \<^verbatim>\<open>devices['Desktop Chrome']\<close> of \<^verbatim>\<open>@playwright/test\<close>,
  \<^verbatim>\<open>__dirname\<close> and \<^verbatim>\<open>os.homedir()\<close>. \<^verbatim>\<open>path.join\<close> is passed as a
  function where it is used.

  \<^verbatim>\<open>__dirname\<close> is the directory that holds \<^verbatim>\<open>playwright.config.ts\<close>. It is
  not the working directory of the process, \<^verbatim>\<open>process.cwd()\<close>: that one is where
  the runner was started, and it is what the relative path \<^verbatim>\<open>'.env'\<close> of line 10
  is resolved against. The host carries both, as \<open>dirname\<close> and \<open>cwd\<close>.
\<close>

record ambient =
  AnacondaConfigDefaults :: obj
  AnacondaProjectDefaults :: obj
  desktopChrome :: obj
  dirname :: string
  homedir :: string
  cwd :: string


section \<open>The module's constants (lines 15 to 19)\<close>

definition BASE_URL :: "env \<Rightarrow> string" where
  "BASE_URL e = orElse (e ''URL'') ''https://www.saucedemo.com''"

definition STORAGE_STATE_PATH :: "(string \<Rightarrow> string \<Rightarrow> string) \<Rightarrow> ambient \<Rightarrow> string" where
  "STORAGE_STATE_PATH path_join amb = path_join (dirname amb) ''playwright/.auth''"

definition bearerToken :: "env \<Rightarrow> string option" where
  "bearerToken e = e ''BEARER_TOKEN''"

text \<open>
  The three constants together are what the specification calls the EffectiveConfig.
\<close>

record EffectiveConfig =
  baseUrl :: string
  token :: "string option"
  storageStatePath :: string

definition effectiveConfig ::
  "(string \<Rightarrow> string \<Rightarrow> string) \<Rightarrow> ambient \<Rightarrow> env \<Rightarrow> EffectiveConfig" where
  "effectiveConfig path_join amb e =
     \<lparr> baseUrl = BASE_URL e,
       token = bearerToken e,
       storageStatePath = STORAGE_STATE_PATH path_join amb \<rparr>"


section \<open>The configuration object (lines 21 to 176)\<close>

text \<open>The top-level \<^verbatim>\<open>use\<close> (lines 31 to 44).\<close>

definition use_defaults :: "ambient \<Rightarrow> env \<Rightarrow> obj" where
  "use_defaults amb e = objLit
     [ Spread (AnacondaProjectDefaults amb),
       Prop ''trace'' (JStr ''retain-on-failure''),
       Prop ''screenshot'' (JStr ''only-on-failure''),
       Prop ''headless'' (JBool True),
       Prop ''baseURL'' (JStr (BASE_URL e)),
       Prop ''extraHTTPHeaders'' (JObj (objLit
         [ Prop ''Authorization'' (JStr (''Bearer '' @ toStringJS (bearerToken e))) ])) ]"

text \<open>The four entries of \<^verbatim>\<open>projects\<close> (lines 51 to 114).\<close>

definition project_setup :: "ambient \<Rightarrow> obj" where
  "project_setup amb = objLit
     [ Prop ''name'' (JStr ''setup''),
       Prop ''testMatch'' (JStr ''**/login-storage-setup.ts''),
       Prop ''use'' (JObj (objLit
         [ Spread (desktopChrome amb),
           Prop ''viewport'' (JObj (objLit
             [ Prop ''width'' (JNum 1600), Prop ''height'' (JNum 1000) ])),
           Prop ''launchOptions'' (JObj (objLit
             [ Prop ''args'' (JArr [JStr ''--disable-web-security'']),
               Prop ''slowMo'' (JNum 0) ])) ])) ]"

definition project_chromium :: "ambient \<Rightarrow> obj" where
  "project_chromium amb = objLit
     [ Prop ''name'' (JStr ''chromium''),
       Prop ''use'' (JObj (objLit
         [ Prop ''viewport'' JNull,
           Prop ''launchOptions'' (JObj (objLit
             [ Prop ''args'' (JArr [JStr ''--disable-web-security'', JStr ''--start-maximized'']),
               Prop ''slowMo'' (JNum 0),
               Prop ''headless'' (JBool False) ])) ])) ]"

definition project_chromiumheadless :: "ambient \<Rightarrow> obj" where
  "project_chromiumheadless amb = objLit
     [ Prop ''name'' (JStr ''chromiumheadless''),
       Prop ''use'' (JObj (objLit
         [ Spread (desktopChrome amb),
           Prop ''viewport'' (JObj (objLit
             [ Prop ''width'' (JNum 1600), Prop ''height'' (JNum 1000) ])),
           Prop ''launchOptions'' (JObj (objLit
             [ Prop ''args'' (JArr [JStr ''--disable-web-security'']),
               Prop ''slowMo'' (JNum 0),
               Prop ''headless'' (JBool True) ])) ])) ]"

definition project_chromiumProd :: "ambient \<Rightarrow> obj" where
  "project_chromiumProd amb = objLit
     [ Prop ''name'' (JStr ''chromiumProd''),
       Prop ''use'' (JObj (objLit
         [ Spread (desktopChrome amb),
           Prop ''viewport'' (JObj (objLit
             [ Prop ''width'' (JNum 1600), Prop ''height'' (JNum 1000) ])),
           Prop ''launchOptions'' (JObj (objLit
             [ Prop ''args'' (JArr [JStr ''--disable-web-security'']),
               Prop ''slowMo'' (JNum 0),
               Prop ''headless'' (JBool True) ])) ])) ]"

definition projects :: "ambient \<Rightarrow> jsval list" where
  "projects amb =
     [ JObj (project_setup amb),
       JObj (project_chromium amb),
       JObj (project_chromiumheadless amb),
       JObj (project_chromiumProd amb) ]"

text \<open>The descriptor \<^verbatim>\<open>webServer\<close> (lines 166 to 175).\<close>

definition webServer :: "ambient \<Rightarrow> env \<Rightarrow> obj" where
  "webServer amb e = objLit
     [ Prop ''cwd'' (JStr (homedir amb @ ''/repos/ui'')),
       Prop ''command'' (JStr ''npm start ui-server''),
       Prop ''url'' (JStr (BASE_URL e)),
       Prop ''ignoreHTTPSErrors'' (JBool True),
       Prop ''timeout'' (JNum (2 * 60 * 1000)),
       Prop ''reuseExistingServer'' (JBool True),
       Prop ''stdout'' (JStr ''pipe''),
       Prop ''stderr'' (JStr ''pipe'') ]"

text \<open>
  \<^verbatim>\<open>defineConfig\<close> called with one configuration returns that configuration.
\<close>

definition defineConfig :: "obj \<Rightarrow> obj" where
  "defineConfig c = c"

definition config :: "ambient \<Rightarrow> env \<Rightarrow> obj" where
  "config amb e = defineConfig (objLit
     [ Spread (AnacondaConfigDefaults amb),
       Prop ''testDir'' (JStr ''./tests''),
       Prop ''use'' (JObj (use_defaults amb e)),
       Prop ''projects'' (JArr (projects amb)),
       Prop ''webServer'' (JObj (webServer amb e)) ])"


section \<open>Loading the module\<close>

text \<open>
  Evaluating the module first runs \<^verbatim>\<open>dotenv.config\<close>, which changes
  \<^verbatim>\<open>process.env\<close>, and then computes the constants and the default export from the
  environment so obtained. The result carries the environment left behind.
\<close>

record loaded =
  env_after :: env
  constants :: EffectiveConfig
  default_export :: obj

definition loadModule ::
  "(string \<Rightarrow> string \<Rightarrow> string) \<Rightarrow> ambient \<Rightarrow> (string \<times> string) list option \<Rightarrow> env \<Rightarrow> loaded" where
  "loadModule path_join amb parsed e =
     (let e' = dotenv_config parsed e in
      \<lparr> env_after = e',
        constants = effectiveConfig path_join amb e',
        default_export = config amb e' \<rparr>)"

definition activeProjects :: "ambient \<Rightarrow> env \<Rightarrow> jsval list" where
  "activeProjects amb e = elems (getProp (config amb e) ''projects'')"


section \<open>The runner's merge of defaults and profile settings\<close>

text \<open>
  Modelled from the spec: the merge of the top-level \<^verbatim>\<open>use\<close> with a profile's own
  \<^verbatim>\<open>use\<close> is done by the external test runner, which is not part of the sources.
  The specification describes it as object-spread merging of defaults with overrides,
  a shallow merge: a key of the profile's \<^verbatim>\<open>use\<close> replaces the same key of the
  top-level \<^verbatim>\<open>use\<close>, and a key nested inside a value (such as
  \<^verbatim>\<open>launchOptions.headless\<close>) is no key of \<^verbatim>\<open>use\<close>. It is written with the
  module's own \<open>spread\<close>: \<^verbatim>\<open>{ ...config.use, ...project.use }\<close>.
\<close>

definition mergedUse :: "obj \<Rightarrow> jsval \<Rightarrow> obj" where
  "mergedUse cfg p = spread (props (getProp cfg ''use'')) (props (dots p [''use'']))"


section \<open>A concrete host for the closed examples\<close>

text \<open>
  The examples below run the module on a host with small default objects, the shape
  of a desktop device descriptor, and a \<^verbatim>\<open>path.join\<close> that puts a separator
  between its two arguments.
\<close>

definition examplePathJoin :: "string \<Rightarrow> string \<Rightarrow> string" where
  "examplePathJoin a b = a @ ''/'' @ b"

definition exampleHost :: ambient where
  "exampleHost =
     \<lparr> AnacondaConfigDefaults = [(''timeout'', JNum 60000), (''retries'', JNum 0)],
       AnacondaProjectDefaults = [(''actionTimeout'', JNum 5000)],
       desktopChrome =
         [ (''userAgent'', JStr ''Mozilla/5.0''),
           (''viewport'', JObj [(''width'', JNum 1280), (''height'', JNum 720)]),
           (''deviceScaleFactor'', JNum 1),
           (''isMobile'', JBool False),
           (''hasTouch'', JBool False),
           (''defaultBrowserType'', JStr ''chromium'') ],
       dirname = ''/work/anaconda-cli-testing'',
       homedir = ''/home/tester'',
       cwd = ''/work/anaconda-cli-testing'' \<rparr>"

text \<open>
  The same host with the runner started from the home directory, the configuration
  file being named by its path: the working directory is no longer the directory of
  the module.
\<close>

definition exampleHostElsewhere :: ambient where
  "exampleHostElsewhere = exampleHost \<lparr> cwd := ''/home/tester'' \<rparr>"


section \<open>Reading and writing properties\<close>

lemma map_of_setProp: "map_of (setProp k v ps) = (map_of ps)(k \<mapsto> v)"
  by (induction ps) auto

lemma getProp_setProp: "getProp (setProp k v ps) k' = (if k' = k then v else getProp ps k')"
  by (simp add: getProp_def map_of_setProp)

lemma hasProp_setProp: "hasProp (setProp k v ps) k' = (k' = k \<or> hasProp ps k')"
  by (simp add: hasProp_def map_of_setProp)

lemma getProp_Nil: "getProp [] k = JUndefined"
  by (simp add: getProp_def)

lemma getProp_Cons: "getProp ((k, v) # ps) k' = (if k' = k then v else getProp ps k')"
  by (simp add: getProp_def)

lemma hasProp_Nil: "hasProp [] k = False"
  by (simp add: hasProp_def)

lemma hasProp_Cons: "hasProp ((k, v) # ps) k' = (k' = k \<or> hasProp ps k')"
  by (auto simp: hasProp_def)

lemmas lit = objLit_def getProp_setProp hasProp_setProp getProp_Nil getProp_Cons
  hasProp_Nil hasProp_Cons

text \<open>A spread adds the keys of its source and leaves every other key as it was.\<close>

lemma hasProp_spread: "hasProp (spread acc s) k = (hasProp acc k \<or> hasProp s k)"
proof (induction acc s rule: spread.induct)
  case (1 acc)
  show ?case by (simp add: hasProp_Nil)
next
  case (2 acc k' v ps)
  then show ?case by (auto simp: hasProp_setProp hasProp_Cons)
qed

lemma getProp_spread_absent:
  "hasProp s k = False \<Longrightarrow> getProp (spread acc s) k = getProp acc k"
proof (induction acc s rule: spread.induct)
  case (1 acc)
  show ?case by simp
next
  case (2 acc k' v ps)
  then show ?case by (simp add: hasProp_Cons getProp_setProp)
qed

lemma activeProjects_eq: "activeProjects amb e = projects amb"
  by (simp add: activeProjects_def config_def defineConfig_def lit)

lemma config_use: "getProp (config amb e) ''use'' = JObj (use_defaults amb e)"
  by (simp add: config_def defineConfig_def lit)

lemma top_use_headless: "getProp (use_defaults amb e) ''headless'' = JBool True"
  by (simp add: use_defaults_def lit)


section \<open>The Authorization header\<close>

text \<open>
  The header is built by the template literal of line 42 whatever the token is: its
  value is \<^verbatim>\<open>Bearer\<close>, a space, and the string conversion of what
  \<^verbatim>\<open>process.env.BEARER_TOKEN\<close> reads as.
\<close>

lemma authorization_value:
  "dots (JObj (config amb e)) [''use'', ''extraHTTPHeaders'', ''Authorization'']
     = JStr (''Bearer '' @ toStringJS (e ''BEARER_TOKEN''))"
  by (simp add: config_def defineConfig_def use_defaults_def bearerToken_def lit)

text \<open>
  Claim C1, as the code has it. The header is constructed unconditionally. When
  \<^verbatim>\<open>BEARER_TOKEN\<close> is unset, the interpolated value is \<^verbatim>\<open>undefined\<close> and the
  header is the string \<^verbatim>\<open>Bearer undefined\<close>; when it is bound to a string \<open>t\<close>
  (the empty string included), the header is \<^verbatim>\<open>Bearer\<close>, one space, and \<open>t\<close>.
\<close>

theorem authorization_unconditional:
  "(e ''BEARER_TOKEN'' = None \<longrightarrow>
      dots (JObj (config amb e)) [''use'', ''extraHTTPHeaders'', ''Authorization'']
        = JStr ''Bearer undefined'') \<and>
   (\<forall>t. e ''BEARER_TOKEN'' = Some t \<longrightarrow>
      dots (JObj (config amb e)) [''use'', ''extraHTTPHeaders'', ''Authorization'']
        = JStr (''Bearer '' @ t))"
  by (simp only: authorization_value, simp add: toStringJS_def)

text \<open>
  The theorem on the example host: with no token, with the empty token, and with the
  token \<^verbatim>\<open>abc123\<close>.
\<close>

theorem authorization_unconditional_witness:
  "(Map.empty :: env) ''BEARER_TOKEN'' = None \<and>
   dots (JObj (config exampleHost Map.empty))
     [''use'', ''extraHTTPHeaders'', ''Authorization''] = JStr ''Bearer undefined'' \<and>
   dots (JObj (config exampleHost [''BEARER_TOKEN'' \<mapsto> '''']))
     [''use'', ''extraHTTPHeaders'', ''Authorization''] = JStr ''Bearer '' \<and>
   dots (JObj (config exampleHost [''BEARER_TOKEN'' \<mapsto> ''abc123'']))
     [''use'', ''extraHTTPHeaders'', ''Authorization''] = JStr ''Bearer abc123''"
  using authorization_unconditional [of Map.empty exampleHost]
    authorization_unconditional [of "[''BEARER_TOKEN'' \<mapsto> '''']" exampleHost]
    authorization_unconditional [of "[''BEARER_TOKEN'' \<mapsto> ''abc123'']" exampleHost]
  by simp

text \<open>
  Claim C1 as it is written says that an unset \<^verbatim>\<open>BEARER_TOKEN\<close> gives the header
  \<^verbatim>\<open>Bearer\<close> followed by one space and nothing else. In the empty environment the
  variable is unset and the header is another string.
\<close>

theorem authorization_unset_counterexample:
  "(Map.empty :: env) ''BEARER_TOKEN'' = None \<and>
   dots (JObj (config exampleHost Map.empty))
     [''use'', ''extraHTTPHeaders'', ''Authorization''] \<noteq> JStr ''Bearer ''"
  by (simp only: authorization_value, simp add: toStringJS_def)


section \<open>The profiles\<close>

lemma project_names:
  "map (\<lambda>p. dots p [''name'']) (projects amb) =
     [JStr ''setup'', JStr ''chromium'', JStr ''chromiumheadless'', JStr ''chromiumProd'']"
  by (simp add: projects_def project_setup_def project_chromium_def
      project_chromiumheadless_def project_chromiumProd_def lit)

lemma project_args:
  "map (\<lambda>p. elems (dots p [''use'', ''launchOptions'', ''args''])) (projects amb) =
     [ [JStr ''--disable-web-security''],
       [JStr ''--disable-web-security'', JStr ''--start-maximized''],
       [JStr ''--disable-web-security''],
       [JStr ''--disable-web-security''] ]"
  by (simp add: projects_def project_setup_def project_chromium_def
      project_chromiumheadless_def project_chromiumProd_def lit)

text \<open>
  Claim C2. In every environment, and whatever the imported defaults hold, the
  \<^verbatim>\<open>projects\<close> of the configuration are exactly four profiles, named
  \<^verbatim>\<open>setup\<close>, \<^verbatim>\<open>chromium\<close>, \<^verbatim>\<open>chromiumheadless\<close>, \<^verbatim>\<open>chromiumProd\<close> in this
  order, the names are pairwise different, and the \<^verbatim>\<open>launchOptions.args\<close> of each
  profile contain \<^verbatim>\<open>--disable-web-security\<close>.
\<close>

theorem four_profiles:
  "length (activeProjects amb e) = 4 \<and>
   map (\<lambda>p. dots p [''name'']) (activeProjects amb e) =
     [JStr ''setup'', JStr ''chromium'', JStr ''chromiumheadless'', JStr ''chromiumProd''] \<and>
   distinct (map (\<lambda>p. dots p [''name'']) (activeProjects amb e)) \<and>
   map (\<lambda>p. JStr ''--disable-web-security''
               \<in> set (elems (dots p [''use'', ''launchOptions'', ''args''])))
     (activeProjects amb e) = [True, True, True, True]"
proof -
  have len: "length (activeProjects amb e) = 4"
    by (simp add: activeProjects_eq projects_def)
  have names: "map (\<lambda>p. dots p [''name'']) (activeProjects amb e) =
     [JStr ''setup'', JStr ''chromium'', JStr ''chromiumheadless'', JStr ''chromiumProd'']"
    by (simp only: activeProjects_eq project_names)
  have dist: "distinct (map (\<lambda>p. dots p [''name'']) (activeProjects amb e))"
    by (simp add: names)
  have "map (\<lambda>p. JStr ''--disable-web-security''
                    \<in> set (elems (dots p [''use'', ''launchOptions'', ''args''])))
          (activeProjects amb e) =
        map (\<lambda>a. JStr ''--disable-web-security'' \<in> set a)
          (map (\<lambda>p. elems (dots p [''use'', ''launchOptions'', ''args'']))
            (activeProjects amb e))"
    by (simp add: comp_def)
  also have "\<dots> = [True, True, True, True]"
    by (simp add: activeProjects_eq project_args)
  finally show ?thesis using len names dist by blast
qed

text \<open>
  Claim C10. No profile of the active configuration has a \<^verbatim>\<open>dependencies\<close>
  property: the key is absent from each of the four profile objects (the lines that
  would declare it are comments), so no profile is declared to run after another.
\<close>

theorem no_dependencies:
  "map (\<lambda>p. hasProp (props p) ''dependencies'') (activeProjects amb e)
     = [False, False, False, False]"
  by (simp add: activeProjects_eq projects_def project_setup_def project_chromium_def
      project_chromiumheadless_def project_chromiumProd_def lit)

text \<open>
  Claim C8. The profile \<^verbatim>\<open>chromiumProd\<close> is the profile \<^verbatim>\<open>chromiumheadless\<close>
  under another name: renaming it gives the very same object. Both have the keys
  \<^verbatim>\<open>name\<close> and \<^verbatim>\<open>use\<close> only, their \<^verbatim>\<open>use\<close> values are equal (so every key
  spread from the device preset reads the same in both), the viewport is 1600 by 1000,
  and \<^verbatim>\<open>launchOptions\<close> hold the same \<^verbatim>\<open>args\<close>, \<^verbatim>\<open>slowMo\<close> 0 and
  \<^verbatim>\<open>headless\<close> true.
\<close>

theorem chromiumProd_same_shape:
  "setProp ''name'' (JStr ''chromiumheadless'') (project_chromiumProd amb)
     = project_chromiumheadless amb \<and>
   map fst (project_chromiumProd amb) = [''name'', ''use''] \<and>
   map fst (project_chromiumheadless amb) = [''name'', ''use''] \<and>
   getProp (project_chromiumProd amb) ''name'' = JStr ''chromiumProd'' \<and>
   getProp (project_chromiumheadless amb) ''name'' = JStr ''chromiumheadless'' \<and>
   getProp (project_chromiumProd amb) ''use'' = getProp (project_chromiumheadless amb) ''use'' \<and>
   dots (JObj (project_chromiumProd amb)) [''use'', ''viewport'']
     = JObj [(''width'', JNum 1600), (''height'', JNum 1000)] \<and>
   dots (JObj (project_chromiumProd amb)) [''use'', ''launchOptions'']
     = JObj [ (''args'', JArr [JStr ''--disable-web-security'']),
              (''slowMo'', JNum 0),
              (''headless'', JBool True) ]"
  by (simp add: project_chromiumProd_def project_chromiumheadless_def lit)


section \<open>Headless mode after the merge\<close>

lemma chromium_use:
  "dots (JObj (project_chromium amb)) [''use''] = JObj
     [ (''viewport'', JNull),
       (''launchOptions'', JObj
         [ (''args'', JArr [JStr ''--disable-web-security'', JStr ''--start-maximized'']),
           (''slowMo'', JNum 0),
           (''headless'', JBool False) ]) ]"
  by (simp add: project_chromium_def lit)

text \<open>
  The three profiles that spread the device preset write no \<^verbatim>\<open>headless\<close> key into
  their \<^verbatim>\<open>use\<close> either. When the preset has none, the merged \<^verbatim>\<open>use.headless\<close>
  of each is the top-level \<^verbatim>\<open>true\<close>.
\<close>

lemma preset_profiles_headless:
  assumes "hasProp (desktopChrome amb) ''headless'' = False"
  shows "getProp (mergedUse (config amb e) (JObj (project_setup amb))) ''headless'' = JBool True"
    and "getProp (mergedUse (config amb e) (JObj (project_chromiumheadless amb))) ''headless''
           = JBool True"
    and "getProp (mergedUse (config amb e) (JObj (project_chromiumProd amb))) ''headless''
           = JBool True"
  using assms
  by (simp_all add: mergedUse_def config_use project_setup_def project_chromiumheadless_def
      project_chromiumProd_def lit hasProp_spread getProp_spread_absent top_use_headless)

text \<open>
  Claim C3 says that after merging the top-level defaults with each profile's own
  settings the headless value of the profile \<^verbatim>\<open>chromium\<close> is false. The code does
  not give that: the top-level \<^verbatim>\<open>use\<close> sets \<^verbatim>\<open>headless\<close> to true, the profile
  \<^verbatim>\<open>chromium\<close> has no \<^verbatim>\<open>headless\<close> key in its \<^verbatim>\<open>use\<close> and writes its
  \<^verbatim>\<open>false\<close> one level down, at \<^verbatim>\<open>launchOptions.headless\<close>. In the merged
  \<^verbatim>\<open>use\<close> of the profile, \<^verbatim>\<open>headless\<close> is therefore still true, next to a
  \<^verbatim>\<open>launchOptions.headless\<close> that is false.
\<close>

theorem chromium_headless_shadowed:
  "getProp (use_defaults amb e) ''headless'' = JBool True \<and>
   hasProp (props (dots (JObj (project_chromium amb)) [''use''])) ''headless'' = False \<and>
   dots (JObj (project_chromium amb)) [''use'', ''launchOptions'', ''headless''] = JBool False \<and>
   getProp (mergedUse (config amb e) (JObj (project_chromium amb))) ''headless'' = JBool True \<and>
   dots (JObj (mergedUse (config amb e) (JObj (project_chromium amb))))
     [''launchOptions'', ''headless''] = JBool False"
proof -
  have a: "getProp (use_defaults amb e) ''headless'' = JBool True"
    by (rule top_use_headless)
  have b: "hasProp (props (dots (JObj (project_chromium amb)) [''use''])) ''headless'' = False"
    by (simp only: chromium_use) (simp add: lit)
  have c: "dots (JObj (project_chromium amb)) [''use'', ''launchOptions'', ''headless'']
             = JBool False"
    by (simp add: project_chromium_def lit)
  have d: "getProp (mergedUse (config amb e) (JObj (project_chromium amb))) ''headless''
             = JBool True"
    unfolding mergedUse_def config_use chromium_use
    by (simp add: lit top_use_headless)
  have f: "dots (JObj (mergedUse (config amb e) (JObj (project_chromium amb))))
             [''launchOptions'', ''headless''] = JBool False"
    unfolding mergedUse_def config_use chromium_use
    by (simp add: lit)
  from a b c d f show ?thesis by blast
qed


section \<open>The base URL\<close>

text \<open>A non-empty \<^verbatim>\<open>URL\<close> is taken as it is, character for character.\<close>

lemma baseUrl_verbatim:
  "e ''URL'' = Some u \<Longrightarrow> u \<noteq> [] \<Longrightarrow> baseUrl (effectiveConfig pj amb e) = u"
  by (simp add: effectiveConfig_def BASE_URL_def orElse_def)

text \<open>
  Claim C4. In every environment where \<^verbatim>\<open>URL\<close> is unset or bound to the empty
  string, the resolved base URL is the literal \<^verbatim>\<open>https://www.saucedemo.com\<close>.
\<close>

theorem baseUrl_default:
  assumes "e ''URL'' = None \<or> e ''URL'' = Some ''''"
  shows "baseUrl (effectiveConfig pj amb e) = ''https://www.saucedemo.com''"
  using assms by (auto simp: effectiveConfig_def BASE_URL_def orElse_def)

text \<open>The theorem in the empty environment and in one that binds \<^verbatim>\<open>URL\<close> to the
  empty string.\<close>

theorem baseUrl_default_witness:
  "(Map.empty :: env) ''URL'' = None \<and>
   baseUrl (effectiveConfig examplePathJoin exampleHost Map.empty)
     = ''https://www.saucedemo.com'' \<and>
   ([''URL'' \<mapsto> ''''] :: env) ''URL'' = Some '''' \<and>
   baseUrl (effectiveConfig examplePathJoin exampleHost [''URL'' \<mapsto> ''''])
     = ''https://www.saucedemo.com''"
  using baseUrl_default [of Map.empty examplePathJoin exampleHost]
    baseUrl_default [of "[''URL'' \<mapsto> '''']" examplePathJoin exampleHost]
  by simp

text \<open>
  Claim C5. In every environment where \<^verbatim>\<open>URL\<close> is bound to
  \<^verbatim>\<open>https://example.test\<close>, the resolved base URL is exactly that string: no slash
  is added or removed and nothing else is rewritten.
\<close>

theorem baseUrl_override:
  assumes "e ''URL'' = Some ''https://example.test''"
  shows "baseUrl (effectiveConfig pj amb e) = ''https://example.test''"
  using assms by (simp add: baseUrl_verbatim)

theorem baseUrl_override_witness:
  "([''URL'' \<mapsto> ''https://example.test''] :: env) ''URL'' = Some ''https://example.test'' \<and>
   baseUrl (effectiveConfig examplePathJoin exampleHost [''URL'' \<mapsto> ''https://example.test''])
     = ''https://example.test''"
  using baseUrl_override
    [of "[''URL'' \<mapsto> ''https://example.test'']" examplePathJoin exampleHost]
  by simp


section \<open>The server bootstrap descriptor\<close>

text \<open>
  Claim C6. In every environment, with any \<^verbatim>\<open>.env\<close> file and any imported
  defaults, the \<^verbatim>\<open>webServer\<close> descriptor of the configuration has the timeout
  120000 (the product \<^verbatim>\<open>2 * 60 * 1000\<close>) and \<^verbatim>\<open>reuseExistingServer\<close> true.
\<close>

theorem webServer_timeout_reuse:
  "dots (JObj (config amb e)) [''webServer'', ''timeout''] = JNum 120000 \<and>
   dots (JObj (config amb e)) [''webServer'', ''reuseExistingServer''] = JBool True \<and>
   dots (JObj (default_export (loadModule pj amb parsed e))) [''webServer'', ''timeout'']
     = JNum 120000 \<and>
   dots (JObj (default_export (loadModule pj amb parsed e)))
     [''webServer'', ''reuseExistingServer''] = JBool True"
  by (simp add: loadModule_def Let_def config_def defineConfig_def webServer_def lit)


section \<open>Resolving twice\<close>

text \<open>
  Loading the \<^verbatim>\<open>.env\<close> file a second time changes nothing: every variable it
  could add is already set.
\<close>

lemma dotenv_config_idem:
  "dotenv_config parsed (dotenv_config parsed e) = dotenv_config parsed e"
  by (cases parsed) (auto simp: dotenv_config_def fun_eq_iff split: option.splits)

text \<open>
  Claim C7. Resolution is idempotent and deterministic. Loading the module again in the
  environment the first load left behind, with the same \<^verbatim>\<open>.env\<close> file and the same
  host, gives constants equal field for field (base URL, bearer token, storage-state
  path), and indeed the same environment and the same configuration object.
\<close>

theorem resolution_idempotent:
  "baseUrl (constants (loadModule pj amb parsed (env_after (loadModule pj amb parsed e))))
     = baseUrl (constants (loadModule pj amb parsed e)) \<and>
   token (constants (loadModule pj amb parsed (env_after (loadModule pj amb parsed e))))
     = token (constants (loadModule pj amb parsed e)) \<and>
   storageStatePath
       (constants (loadModule pj amb parsed (env_after (loadModule pj amb parsed e))))
     = storageStatePath (constants (loadModule pj amb parsed e)) \<and>
   loadModule pj amb parsed (env_after (loadModule pj amb parsed e))
     = loadModule pj amb parsed e"
  by (simp add: loadModule_def Let_def dotenv_config_idem)


section \<open>The storage-state path\<close>

text \<open>
  Claim C9, as the code has it. The storage-state path does not depend on the
  environment: for any two environments and any two \<^verbatim>\<open>.env\<close> files the resolved
  path is the same, namely \<^verbatim>\<open>path.join\<close> of the directory of the configuration
  module (\<^verbatim>\<open>__dirname\<close>) and \<^verbatim>\<open>playwright/.auth\<close>. The working directory of
  the process takes no part in it.
\<close>

theorem storage_path_env_independent:
  "storageStatePath (constants (loadModule pj amb parsed1 e1))
     = storageStatePath (constants (loadModule pj amb parsed2 e2)) \<and>
   storageStatePath (effectiveConfig pj amb e1) = storageStatePath (effectiveConfig pj amb e2) \<and>
   storageStatePath (effectiveConfig pj amb e1) = pj (dirname amb) ''playwright/.auth''"
  by (simp add: loadModule_def Let_def effectiveConfig_def STORAGE_STATE_PATH_def)

text \<open>
  Claim C9 as it is written names the working directory as the base of the path. With
  the runner started from the home directory, the working directory differs from the
  module's directory, the path is still the one under the module's directory, and it
  is not the working directory joined with \<^verbatim>\<open>playwright/.auth\<close>.
\<close>

theorem storage_path_working_directory_counterexample:
  "cwd exampleHostElsewhere = ''/home/tester'' \<and>
   dirname exampleHostElsewhere = ''/work/anaconda-cli-testing'' \<and>
   storageStatePath (effectiveConfig examplePathJoin exampleHostElsewhere Map.empty)
     = ''/work/anaconda-cli-testing/playwright/.auth'' \<and>
   storageStatePath (effectiveConfig examplePathJoin exampleHostElsewhere Map.empty)
     \<noteq> examplePathJoin (cwd exampleHostElsewhere) ''playwright/.auth''"
  by (simp add: effectiveConfig_def STORAGE_STATE_PATH_def examplePathJoin_def
      exampleHostElsewhere_def exampleHost_def)

end
